theory Spec2Isabelle
  imports Complex_Main
begin

section \<open>Numbers\<close>

text \<open>
  The program computes with JavaScript numbers, which are binary64 floating-point
  numbers. Here coordinates and distances are real numbers and the arithmetic on them is
  exact: the rounding of each operation, overflow to an infinity and underflow to zero
  are not modelled. So a theorem below describes the program up to rounding, and for
  operands far from the limits of the format; where the program itself is exact (a zero
  vector, the comparison of two equal numbers, a result passed on unchanged) the theorem
  holds of it as it stands.

  What is kept of the IEEE arithmetic is what exact operands can reach: a division whose
  divisor is zero does not fail, it yields an infinity or NaN, and the functions applied
  to the quotient afterwards (\<open>Math.min\<close>, \<open>Math.max\<close>, \<open>Math.acos\<close>, the
  multiplication) pass NaN on.
\<close>

datatype jsnum = Fin real | PosInf | NegInf | NaN

text \<open>
  \<open>a / b\<close> on two finite numbers. The sign of a zero divisor is not modelled: the
  only divisor the program computes is a product of square roots, whose zero is \<open>+0\<close>.
\<close>

definition js_div :: "real \<Rightarrow> real \<Rightarrow> jsnum" where
  "js_div a b =
     (if b = 0 then (if a = 0 then NaN else if 0 < a then PosInf else NegInf)
      else Fin (a / b))"

text \<open>\<open>Math.min(a, b)\<close> and \<open>Math.max(a, b)\<close>: NaN if either argument is NaN.\<close>

fun js_min :: "jsnum \<Rightarrow> jsnum \<Rightarrow> jsnum" where
  "js_min NaN b = NaN"
| "js_min a NaN = NaN"
| "js_min NegInf b = NegInf"
| "js_min a NegInf = NegInf"
| "js_min PosInf b = b"
| "js_min a PosInf = a"
| "js_min (Fin a) (Fin b) = Fin (min a b)"

fun js_max :: "jsnum \<Rightarrow> jsnum \<Rightarrow> jsnum" where
  "js_max NaN b = NaN"
| "js_max a NaN = NaN"
| "js_max PosInf b = PosInf"
| "js_max a PosInf = PosInf"
| "js_max NegInf b = b"
| "js_max a NegInf = a"
| "js_max (Fin a) (Fin b) = Fin (max a b)"

text \<open>\<open>Math.acos(v)\<close>: NaN outside \<open>[-1, 1]\<close> and on NaN.\<close>

fun js_acos :: "jsnum \<Rightarrow> jsnum" where
  "js_acos (Fin v) = (if - 1 \<le> v \<and> v \<le> 1 then Fin (arccos v) else NaN)"
| "js_acos PosInf = NaN"
| "js_acos NegInf = NaN"
| "js_acos NaN = NaN"

text \<open>\<open>a * c\<close> for a finite factor \<open>c\<close>.\<close>

fun js_times :: "jsnum \<Rightarrow> real \<Rightarrow> jsnum" where
  "js_times (Fin a) c = Fin (a * c)"
| "js_times PosInf c = (if c = 0 then NaN else if 0 < c then PosInf else NegInf)"
| "js_times NegInf c = (if c = 0 then NaN else if 0 < c then NegInf else PosInf)"
| "js_times NaN c = NaN"

section \<open>Constants and data\<close>

definition PITCH_LENGTH :: real where "PITCH_LENGTH = 100"
definition PITCH_WIDTH :: real where "PITCH_WIDTH = 70"
definition GOAL_POST_WIDTH :: real where "GOAL_POST_WIDTH = 56 / 10"
definition IN_GOAL_DEPTH :: real where "IN_GOAL_DEPTH = 10"
definition SCALE :: real where "SCALE = 4"

record Point =
  x :: real
  y :: real

datatype goal = Top | Bottom

record CalculationResult =
  distanceToNearestGoal :: real
  angleWidth :: jsnum
  selectedPoint :: Point
  nearestGoal :: goal

text \<open>
  The two fields of the bounding rectangle that the program reads, and the two fields
  of the click event. \<open>svgRef.current?.getBoundingClientRect()\<close> is a
  \<open>DOMRect option\<close>: \<open>None\<close> while the SVG element is not mounted.
\<close>

record DOMRect =
  rect_left :: real
  rect_top :: real

record MouseEvent =
  clientX :: real
  clientY :: real

section \<open>The functions of the page\<close>

definition svgToPitch :: "DOMRect option \<Rightarrow> real \<Rightarrow> real \<Rightarrow> Point" where
  "svgToPitch rect svgX svgY =
     (case rect of
        None \<Rightarrow> \<lparr>x = 0, y = 0\<rparr>
      | Some r \<Rightarrow>
          (let relativeX = svgX - rect_left r;
               relativeY = svgY - rect_top r;
               pitchX = relativeX / SCALE - PITCH_WIDTH / 2;
               pitchY = relativeY / SCALE - IN_GOAL_DEPTH
           in \<lparr>x = pitchX, y = pitchY\<rparr>))"

definition calculateDistance :: "Point \<Rightarrow> Point \<Rightarrow> real" where
  "calculateDistance p1 p2 = sqrt ((x p2 - x p1)\<^sup>2 + (y p2 - y p1)\<^sup>2)"

text \<open>
  \<open>calculateAngleWidth\<close> ends with the two statements
  \<^verbatim>\<open>const angleRadians = Math.acos(Math.max(-1, Math.min(1, cosAngle)))\<close> and
  \<^verbatim>\<open>return angleRadians * (180 / Math.PI)\<close>. They are \<open>angleDegrees\<close>, a function of
  \<open>cosAngle\<close>, which may be any number: in the program the rounded quotient can leave
  \<open>[-1, 1]\<close>, and it can be NaN.
\<close>

definition angleDegrees :: "jsnum \<Rightarrow> jsnum" where
  "angleDegrees cosAngle =
     (let angleRadians = js_acos (js_max (Fin (- 1)) (js_min (Fin 1) cosAngle))
      in js_times angleRadians (180 / pi))"

definition calculateAngleWidth :: "Point \<Rightarrow> real \<Rightarrow> jsnum" where
  "calculateAngleWidth point goalY =
     (let leftPost = \<lparr>x = - GOAL_POST_WIDTH / 2, y = goalY\<rparr>;
          rightPost = \<lparr>x = GOAL_POST_WIDTH / 2, y = goalY\<rparr>;
          vectorLeft = \<lparr>x = x leftPost - x point, y = y leftPost - y point\<rparr>;
          vectorRight = \<lparr>x = x rightPost - x point, y = y rightPost - y point\<rparr>;
          dotProduct = x vectorLeft * x vectorRight + y vectorLeft * y vectorRight;
          magnitudeLeft = sqrt (x vectorLeft * x vectorLeft + y vectorLeft * y vectorLeft);
          magnitudeRight =
            sqrt (x vectorRight * x vectorRight + y vectorRight * y vectorRight);
          cosAngle = js_div dotProduct (magnitudeLeft * magnitudeRight)
      in angleDegrees cosAngle)"

text \<open>
  The click handler reads the bounding rectangle and the event, and writes the state
  cell \<open>calculation\<close> through \<open>setCalculation\<close>: it takes the cell and returns it
  updated. The early \<open>return\<close> leaves the cell as it is.
\<close>

definition handlePitchClick ::
  "DOMRect option \<Rightarrow> MouseEvent \<Rightarrow> CalculationResult option \<Rightarrow> CalculationResult option"
where
  "handlePitchClick rect event calculation =
     (case rect of
        None \<Rightarrow> calculation
      | Some r \<Rightarrow>
          (let relativeX = clientX event - rect_left r;
               relativeY = clientY event - rect_top r;
               pitchPoint = \<lparr>x = relativeX / SCALE - PITCH_WIDTH / 2,
                             y = relativeY / SCALE - IN_GOAL_DEPTH\<rparr>;
               topGoalY = PITCH_LENGTH;
               bottomGoalY = 0;
               distanceToTop = calculateDistance pitchPoint \<lparr>x = 0, y = topGoalY\<rparr>;
               distanceToBottom = calculateDistance pitchPoint \<lparr>x = 0, y = bottomGoalY\<rparr>;
               nearestGoal = (if distanceToTop < distanceToBottom then Top else Bottom);
               nearestGoalY = (if nearestGoal = Top then topGoalY else bottomGoalY);
               distanceToNearestGoal = min distanceToTop distanceToBottom;
               angleWidth = calculateAngleWidth pitchPoint nearestGoalY
           in Some \<lparr>distanceToNearestGoal = distanceToNearestGoal,
                     angleWidth = angleWidth,
                     selectedPoint = pitchPoint,
                     nearestGoal = nearestGoal\<rparr>))"

definition pitchToSvg :: "Point \<Rightarrow> Point" where
  "pitchToSvg pitchPoint =
     \<lparr>x = (x pitchPoint + PITCH_WIDTH / 2) * SCALE,
      y = (y pitchPoint + IN_GOAL_DEPTH) * SCALE\<rparr>"

lemmas pitch_consts =
  PITCH_LENGTH_def PITCH_WIDTH_def GOAL_POST_WIDTH_def IN_GOAL_DEPTH_def SCALE_def

section \<open>The click handler, unfolded\<close>

text \<open>
  With a bounding rectangle the handler always stores a result. The point it stores is
  the one \<open>svgToPitch\<close> computes; \<open>Top\<close> is the goal line at
  \<open>y = PITCH_LENGTH\<close> (the far goal), \<open>Bottom\<close> the one at \<open>y = 0\<close> (the near goal).
\<close>

lemma handlePitchClick_Some:
  "handlePitchClick (Some r) e c =
     Some \<lparr>distanceToNearestGoal =
              min (calculateDistance (svgToPitch (Some r) (clientX e) (clientY e))
                     \<lparr>x = 0, y = PITCH_LENGTH\<rparr>)
                  (calculateDistance (svgToPitch (Some r) (clientX e) (clientY e))
                     \<lparr>x = 0, y = 0\<rparr>),
            angleWidth =
              calculateAngleWidth (svgToPitch (Some r) (clientX e) (clientY e))
                (if calculateDistance (svgToPitch (Some r) (clientX e) (clientY e))
                      \<lparr>x = 0, y = PITCH_LENGTH\<rparr>
                    < calculateDistance (svgToPitch (Some r) (clientX e) (clientY e))
                        \<lparr>x = 0, y = 0\<rparr>
                 then PITCH_LENGTH else 0),
            selectedPoint = svgToPitch (Some r) (clientX e) (clientY e),
            nearestGoal =
              (if calculateDistance (svgToPitch (Some r) (clientX e) (clientY e))
                    \<lparr>x = 0, y = PITCH_LENGTH\<rparr>
                  < calculateDistance (svgToPitch (Some r) (clientX e) (clientY e))
                      \<lparr>x = 0, y = 0\<rparr>
               then Top else Bottom)\<rparr>"
  by (simp add: handlePitchClick_def svgToPitch_def Let_def)

lemma halfway_distances_equal:
  assumes "y p = PITCH_LENGTH / 2"
  shows "calculateDistance p \<lparr>x = 0, y = PITCH_LENGTH\<rparr> = calculateDistance p \<lparr>x = 0, y = 0\<rparr>"
proof -
  have "PITCH_LENGTH - y p = - (0 - y p)"
    using assms by simp
  then have "(PITCH_LENGTH - y p)\<^sup>2 = (0 - y p)\<^sup>2"
    by (simp only: power2_minus)
  then show ?thesis by (simp add: calculateDistance_def)
qed

section \<open>Selecting the nearest goal\<close>

text \<open>
  C1, as the code has it. For every click with a bounding rectangle a result is stored,
  and in it: a point whose distances to the two goal-line midpoints (0, PITCH_LENGTH) and
  (0, 0) are equal gets the \<open>Bottom\<close> goal (the near goal line, at y = 0); so does every
  point with pitch-y = PITCH_LENGTH / 2; and \<open>Top\<close> (the far goal line, at
  y = PITCH_LENGTH) is selected exactly when its distance is strictly less than the
  distance to the \<open>Bottom\<close> midpoint.
\<close>

theorem nearestGoal_tie_selects_Bottom:
  "\<exists>res. handlePitchClick (Some r) e c = Some res
     \<and> (calculateDistance (selectedPoint res) \<lparr>x = 0, y = PITCH_LENGTH\<rparr>
          = calculateDistance (selectedPoint res) \<lparr>x = 0, y = 0\<rparr>
        \<longrightarrow> nearestGoal res = Bottom)
     \<and> (y (selectedPoint res) = PITCH_LENGTH / 2 \<longrightarrow> nearestGoal res = Bottom)
     \<and> (nearestGoal res = Top \<longleftrightarrow>
          calculateDistance (selectedPoint res) \<lparr>x = 0, y = PITCH_LENGTH\<rparr>
            < calculateDistance (selectedPoint res) \<lparr>x = 0, y = 0\<rparr>)"
proof -
  let ?p = "svgToPitch (Some r) (clientX e) (clientY e)"
  let ?top = "calculateDistance ?p \<lparr>x = 0, y = PITCH_LENGTH\<rparr>"
  let ?bottom = "calculateDistance ?p \<lparr>x = 0, y = 0\<rparr>"
  obtain res where res: "handlePitchClick (Some r) e c = Some res"
    and pt: "selectedPoint res = ?p"
    and ng: "nearestGoal res = (if ?top < ?bottom then Top else Bottom)"
    by (simp add: handlePitchClick_Some)
  have tie: "?top = ?bottom \<longrightarrow> nearestGoal res = Bottom"
    by (simp add: ng)
  have half: "y ?p = PITCH_LENGTH / 2 \<longrightarrow> nearestGoal res = Bottom"
    using halfway_distances_equal [of ?p] by (simp add: ng)
  have strict: "nearestGoal res = Top \<longleftrightarrow> ?top < ?bottom"
    by (simp add: ng)
  show ?thesis
    using res tie half strict unfolding pt [symmetric] by blast
qed

text \<open>
  The theorem at two clicks with the rectangle at the origin: pixel (140, 240), on the
  halfway line, where the distances are equal and the stored goal is \<open>Bottom\<close>; and
  pixel (140, 440), on the far goal line, where the stored goal is \<open>Top\<close>.
\<close>

theorem nearestGoal_tie_selects_Bottom_witness:
  "(\<exists>res. handlePitchClick (Some \<lparr>rect_left = 0, rect_top = 0\<rparr>)
            \<lparr>clientX = 140, clientY = 240\<rparr> None = Some res
      \<and> selectedPoint res = \<lparr>x = 0, y = 50\<rparr>
      \<and> calculateDistance (selectedPoint res) \<lparr>x = 0, y = PITCH_LENGTH\<rparr>
          = calculateDistance (selectedPoint res) \<lparr>x = 0, y = 0\<rparr>
      \<and> y (selectedPoint res) = PITCH_LENGTH / 2
      \<and> nearestGoal res = Bottom)
   \<and> (\<exists>res. handlePitchClick (Some \<lparr>rect_left = 0, rect_top = 0\<rparr>)
            \<lparr>clientX = 140, clientY = 440\<rparr> None = Some res
      \<and> selectedPoint res = \<lparr>x = 0, y = 100\<rparr>
      \<and> calculateDistance (selectedPoint res) \<lparr>x = 0, y = PITCH_LENGTH\<rparr>
          < calculateDistance (selectedPoint res) \<lparr>x = 0, y = 0\<rparr>
      \<and> nearestGoal res = Top)"
proof -
  let ?r = "\<lparr>rect_left = 0, rect_top = 0\<rparr>"
  obtain res where res: "handlePitchClick (Some ?r) \<lparr>clientX = 140, clientY = 240\<rparr> None = Some res"
    and tie: "calculateDistance (selectedPoint res) \<lparr>x = 0, y = PITCH_LENGTH\<rparr>
                = calculateDistance (selectedPoint res) \<lparr>x = 0, y = 0\<rparr>
              \<longrightarrow> nearestGoal res = Bottom"
    using nearestGoal_tie_selects_Bottom [of ?r "\<lparr>clientX = 140, clientY = 240\<rparr>" None]
    by blast
  have p: "selectedPoint res = \<lparr>x = 0, y = 50\<rparr>"
    using res by (auto simp: handlePitchClick_Some svgToPitch_def pitch_consts)
  have eq: "calculateDistance (selectedPoint res) \<lparr>x = 0, y = PITCH_LENGTH\<rparr>
              = calculateDistance (selectedPoint res) \<lparr>x = 0, y = 0\<rparr>"
    by (simp add: p calculateDistance_def PITCH_LENGTH_def)
  have half: "y (selectedPoint res) = PITCH_LENGTH / 2"
    by (simp add: p PITCH_LENGTH_def)
  have first: "\<exists>res. handlePitchClick (Some ?r) \<lparr>clientX = 140, clientY = 240\<rparr> None = Some res
      \<and> selectedPoint res = \<lparr>x = 0, y = 50\<rparr>
      \<and> calculateDistance (selectedPoint res) \<lparr>x = 0, y = PITCH_LENGTH\<rparr>
          = calculateDistance (selectedPoint res) \<lparr>x = 0, y = 0\<rparr>
      \<and> y (selectedPoint res) = PITCH_LENGTH / 2
      \<and> nearestGoal res = Bottom"
    using res p eq half tie by blast
  obtain res' where res': "handlePitchClick (Some ?r) \<lparr>clientX = 140, clientY = 440\<rparr> None = Some res'"
    and strict: "nearestGoal res' = Top \<longleftrightarrow>
        calculateDistance (selectedPoint res') \<lparr>x = 0, y = PITCH_LENGTH\<rparr>
          < calculateDistance (selectedPoint res') \<lparr>x = 0, y = 0\<rparr>"
    using nearestGoal_tie_selects_Bottom [of ?r "\<lparr>clientX = 140, clientY = 440\<rparr>" None]
    by blast
  have p': "selectedPoint res' = \<lparr>x = 0, y = 100\<rparr>"
    using res' by (auto simp: handlePitchClick_Some svgToPitch_def pitch_consts)
  have lt: "calculateDistance (selectedPoint res') \<lparr>x = 0, y = PITCH_LENGTH\<rparr>
              < calculateDistance (selectedPoint res') \<lparr>x = 0, y = 0\<rparr>"
    by (simp add: p' calculateDistance_def PITCH_LENGTH_def)
  have second: "\<exists>res. handlePitchClick (Some ?r) \<lparr>clientX = 140, clientY = 440\<rparr> None = Some res
      \<and> selectedPoint res = \<lparr>x = 0, y = 100\<rparr>
      \<and> calculateDistance (selectedPoint res) \<lparr>x = 0, y = PITCH_LENGTH\<rparr>
          < calculateDistance (selectedPoint res) \<lparr>x = 0, y = 0\<rparr>
      \<and> nearestGoal res = Top"
    using res' p' lt strict by blast
  show ?thesis using first second by (rule conjI)
qed

text \<open>
  The click on pixel (140, 240) gives the pitch point (0, 50), at distance 50 from both
  goal-line midpoints. The goal stored is \<open>Bottom\<close>, not \<open>Top\<close>, and the angle is
  computed against goalY = 0.
\<close>

theorem halfway_click_not_Top:
  "calculateDistance \<lparr>x = 0, y = 50\<rparr> \<lparr>x = 0, y = PITCH_LENGTH\<rparr> = 50
   \<and> calculateDistance \<lparr>x = 0, y = 50\<rparr> \<lparr>x = 0, y = 0\<rparr> = 50
   \<and> handlePitchClick (Some \<lparr>rect_left = 0, rect_top = 0\<rparr>)
          \<lparr>clientX = 140, clientY = 240\<rparr> None
       = Some \<lparr>distanceToNearestGoal = 50,
                angleWidth = calculateAngleWidth \<lparr>x = 0, y = 50\<rparr> 0,
                selectedPoint = \<lparr>x = 0, y = 50\<rparr>,
                nearestGoal = Bottom\<rparr>
   \<and> map_option nearestGoal
         (handlePitchClick (Some \<lparr>rect_left = 0, rect_top = 0\<rparr>)
            \<lparr>clientX = 140, clientY = 240\<rparr> None) \<noteq> Some Top"
  by (simp add: handlePitchClick_def calculateDistance_def pitch_consts Let_def)

section \<open>From screen to pitch coordinates\<close>

text \<open>
  C3. With a bounding rectangle, the conversion returns
  (relative.x / SCALE - PITCH_WIDTH / 2, relative.y / SCALE - IN_GOAL_DEPTH), where
  relative is the screen point minus the rectangle's (left, top); the constants are
  SCALE = 4, PITCH_WIDTH = 70 and IN_GOAL_DEPTH = 10; the click handler stores the same
  point. With the rectangle at (0, 0), pixel (140, 40) maps to the pitch point (0, 0),
  and the click there stores the near goal (\<open>Bottom\<close>), distance 0 and angle width 180.
\<close>

theorem svgToPitch_formula:
  "svgToPitch (Some r) svgX svgY =
     \<lparr>x = (svgX - rect_left r) / SCALE - PITCH_WIDTH / 2,
      y = (svgY - rect_top r) / SCALE - IN_GOAL_DEPTH\<rparr>
   \<and> SCALE = 4 \<and> PITCH_WIDTH = 70 \<and> IN_GOAL_DEPTH = 10
   \<and> map_option selectedPoint (handlePitchClick (Some r) e c) =
       Some \<lparr>x = (clientX e - rect_left r) / SCALE - PITCH_WIDTH / 2,
             y = (clientY e - rect_top r) / SCALE - IN_GOAL_DEPTH\<rparr>
   \<and> svgToPitch (Some \<lparr>rect_left = 0, rect_top = 0\<rparr>) 140 40 = \<lparr>x = 0, y = 0\<rparr>
   \<and> handlePitchClick (Some \<lparr>rect_left = 0, rect_top = 0\<rparr>)
          \<lparr>clientX = 140, clientY = 40\<rparr> c
       = Some \<lparr>distanceToNearestGoal = 0, angleWidth = Fin 180,
                selectedPoint = \<lparr>x = 0, y = 0\<rparr>, nearestGoal = Bottom\<rparr>"
proof -
  have conv: "svgToPitch (Some r) svgX svgY =
     \<lparr>x = (svgX - rect_left r) / SCALE - PITCH_WIDTH / 2,
      y = (svgY - rect_top r) / SCALE - IN_GOAL_DEPTH\<rparr>"
    by (simp add: svgToPitch_def Let_def)
  have cs: "SCALE = 4 \<and> PITCH_WIDTH = 70 \<and> IN_GOAL_DEPTH = 10"
    by (simp add: pitch_consts)
  have stored: "map_option selectedPoint (handlePitchClick (Some r) e c) =
       Some \<lparr>x = (clientX e - rect_left r) / SCALE - PITCH_WIDTH / 2,
             y = (clientY e - rect_top r) / SCALE - IN_GOAL_DEPTH\<rparr>"
    by (simp add: handlePitchClick_def Let_def)
  have origin: "svgToPitch (Some \<lparr>rect_left = 0, rect_top = 0\<rparr>) 140 40 = \<lparr>x = 0, y = 0\<rparr>"
    by (simp add: svgToPitch_def pitch_consts)
  have click: "handlePitchClick (Some \<lparr>rect_left = 0, rect_top = 0\<rparr>)
          \<lparr>clientX = 140, clientY = 40\<rparr> c
       = Some \<lparr>distanceToNearestGoal = 0, angleWidth = Fin 180,
                selectedPoint = \<lparr>x = 0, y = 0\<rparr>, nearestGoal = Bottom\<rparr>"
    by (simp add: handlePitchClick_def calculateDistance_def calculateAngleWidth_def
          angleDegrees_def js_div_def pitch_consts Let_def)
  show ?thesis using conv cs stored origin click by simp
qed

section \<open>The distance to the nearest goal\<close>

text \<open>
  C4. For every click with a bounding rectangle, the stored distanceToNearestGoal is the
  minimum of the Euclidean distances sqrt (dx * dx + dy * dy) from the stored point to
  (0, PITCH_LENGTH) and to (0, 0), and it is not negative.
\<close>

theorem distanceToNearestGoal_is_min:
  "\<exists>res. handlePitchClick (Some r) e c = Some res
     \<and> selectedPoint res = svgToPitch (Some r) (clientX e) (clientY e)
     \<and> distanceToNearestGoal res =
         min (sqrt ((0 - x (selectedPoint res))\<^sup>2 + (PITCH_LENGTH - y (selectedPoint res))\<^sup>2))
             (sqrt ((0 - x (selectedPoint res))\<^sup>2 + (0 - y (selectedPoint res))\<^sup>2))
     \<and> 0 \<le> distanceToNearestGoal res"
  by (simp add: handlePitchClick_Some calculateDistance_def)

section \<open>Back from pitch to screen coordinates\<close>

text \<open>
  \<open>pitchToSvg\<close> returns coordinates inside the SVG element, whose top-left corner is
  at the bounding rectangle's (left, top) on the screen: the point is on the screen at
  the \<open>pitchToSvg\<close> coordinates plus that origin offset.

  C6. For every screen coordinate and bounding rectangle, the conversion to pitch
  coordinates followed by \<open>pitchToSvg\<close> gives the screen coordinate minus the origin
  offset, and with the same origin offset added back it gives the original screen
  coordinate. The arithmetic is exact here; the program's is rounded, which is the
  tolerance the round trip is stated within.
\<close>

theorem pitchToSvg_svgToPitch:
  "pitchToSvg (svgToPitch (Some r) svgX svgY) = \<lparr>x = svgX - rect_left r, y = svgY - rect_top r\<rparr>
   \<and> \<lparr>x = x (pitchToSvg (svgToPitch (Some r) svgX svgY)) + rect_left r,
       y = y (pitchToSvg (svgToPitch (Some r) svgX svgY)) + rect_top r\<rparr>
       = \<lparr>x = svgX, y = svgY\<rparr>
   \<and> pitchToSvg (svgToPitch (Some \<lparr>rect_left = 0, rect_top = 0\<rparr>) svgX svgY)
       = \<lparr>x = svgX, y = svgY\<rparr>"
proof -
  have rel: "pitchToSvg (svgToPitch (Some r') svgX svgY)
             = \<lparr>x = svgX - rect_left r', y = svgY - rect_top r'\<rparr>" for r'
    by (simp add: pitchToSvg_def svgToPitch_def pitch_consts Let_def)
  have orig: "\<lparr>x = x (pitchToSvg (svgToPitch (Some r) svgX svgY)) + rect_left r,
       y = y (pitchToSvg (svgToPitch (Some r) svgX svgY)) + rect_top r\<rparr>
       = \<lparr>x = svgX, y = svgY\<rparr>"
    by (simp add: rel)
  have zero: "pitchToSvg (svgToPitch (Some \<lparr>rect_left = 0, rect_top = 0\<rparr>) svgX svgY)
       = \<lparr>x = svgX, y = svgY\<rparr>"
    by (simp add: rel)
  show ?thesis using rel [of r] orig zero by simp
qed

section \<open>The angle width\<close>

subsection \<open>Away from the posts\<close>

text \<open>
  When the point is not on a post, neither vector is zero, the division is an ordinary
  one, and the result is the arccosine of the clamped quotient, in degrees.
\<close>

lemma calculateAngleWidth_Fin:
  assumes "\<not> (y point = goalY
              \<and> (x point = - GOAL_POST_WIDTH / 2 \<or> x point = GOAL_POST_WIDTH / 2))"
  shows "calculateAngleWidth point goalY =
     Fin (arccos (max (- 1) (min 1
        (((- GOAL_POST_WIDTH / 2 - x point) * (GOAL_POST_WIDTH / 2 - x point)
            + (goalY - y point) * (goalY - y point))
          / (sqrt ((- GOAL_POST_WIDTH / 2 - x point) * (- GOAL_POST_WIDTH / 2 - x point)
                     + (goalY - y point) * (goalY - y point))
             * sqrt ((GOAL_POST_WIDTH / 2 - x point) * (GOAL_POST_WIDTH / 2 - x point)
                     + (goalY - y point) * (goalY - y point)))))) * (180 / pi))"
proof -
  let ?lx = "- GOAL_POST_WIDTH / 2 - x point"
  let ?rx = "GOAL_POST_WIDTH / 2 - x point"
  let ?dy = "goalY - y point"
  have l: "?lx * ?lx + ?dy * ?dy \<noteq> 0"
    using assms by auto
  have r: "?rx * ?rx + ?dy * ?dy \<noteq> 0"
    using assms by auto
  have "sqrt (?lx * ?lx + ?dy * ?dy) * sqrt (?rx * ?rx + ?dy * ?dy) \<noteq> 0"
    using l r by simp
  then show ?thesis
    by (simp add: calculateAngleWidth_def angleDegrees_def js_div_def Let_def)
qed

lemma clamped_angle_range:
  "0 \<le> arccos (max (- 1) (min 1 c)) * (180 / pi)
   \<and> arccos (max (- 1) (min 1 c)) * (180 / pi) \<le> 180"
proof -
  let ?v = "max (- 1) (min 1 c)"
  have b: "- 1 \<le> ?v" "?v \<le> 1" by auto
  have lo: "0 \<le> arccos ?v" using b by (rule arccos_lbound)
  have hi: "arccos ?v \<le> pi" using b by (rule arccos_ubound)
  have "arccos ?v * (180 / pi) \<le> pi * (180 / pi)"
    using hi by (intro mult_right_mono) auto
  then have "arccos ?v * (180 / pi) \<le> 180" by simp
  moreover have "0 \<le> arccos ?v * (180 / pi)" using lo by simp
  ultimately show ?thesis by simp
qed

lemma angleDegrees_Fin:
  "angleDegrees (Fin c) = Fin (arccos (max (- 1) (min 1 c)) * (180 / pi))"
  by (simp add: angleDegrees_def)

lemma angleDegrees_range:
  assumes "cosAngle \<noteq> NaN"
  shows "\<exists>v a. js_max (Fin (- 1)) (js_min (Fin 1) cosAngle) = Fin v \<and> - 1 \<le> v \<and> v \<le> 1
           \<and> angleDegrees cosAngle = Fin a \<and> a = arccos v * (180 / pi)
           \<and> 0 \<le> a \<and> a \<le> 180"
proof (cases cosAngle)
  case (Fin c)
  have "js_max (Fin (- 1)) (js_min (Fin 1) cosAngle) = Fin (max (- 1) (min 1 c))"
    by (simp add: Fin)
  moreover have "- 1 \<le> max (- 1) (min 1 c)" "max (- 1) (min 1 c) \<le> 1"
    by auto
  moreover have "angleDegrees cosAngle = Fin (arccos (max (- 1) (min 1 c)) * (180 / pi))"
    by (simp add: Fin angleDegrees_Fin)
  ultimately show ?thesis
    using clamped_angle_range [of c] by blast
next
  case PosInf
  have "js_max (Fin (- 1)) (js_min (Fin 1) cosAngle) = Fin 1"
    by (simp add: PosInf)
  moreover have "angleDegrees cosAngle = Fin (arccos 1 * (180 / pi))"
    by (simp add: PosInf angleDegrees_def)
  ultimately show ?thesis
    using clamped_angle_range [of 1] by auto
next
  case NegInf
  have "js_max (Fin (- 1)) (js_min (Fin 1) cosAngle) = Fin (- 1)"
    by (simp add: NegInf)
  moreover have "angleDegrees cosAngle = Fin (arccos (- 1) * (180 / pi))"
    by (simp add: NegInf angleDegrees_def)
  ultimately show ?thesis
    using clamped_angle_range [of "- 1"] by auto
next
  case NaN
  then show ?thesis using assms by simp
qed

text \<open>
  C5, as the code has it. For every point and goal line the angle is \<open>angleDegrees\<close> of
  the quotient (vLeft . vRight) / (|vLeft| * |vRight|). Whenever that quotient is not NaN,
  whatever number it is, the value passed to the arccosine is the quotient clamped to
  [-1, 1] and the returned angle in degrees lies in [0, 180]. When the quotient is NaN,
  as it is on a post, the returned angle is NaN. So the returned angle is NaN or lies in
  [0, 180].
\<close>

theorem calculateAngleWidth_clamped_range:
  "calculateAngleWidth point goalY =
     angleDegrees
       (js_div ((- GOAL_POST_WIDTH / 2 - x point) * (GOAL_POST_WIDTH / 2 - x point)
                  + (goalY - y point) * (goalY - y point))
               (sqrt ((- GOAL_POST_WIDTH / 2 - x point) * (- GOAL_POST_WIDTH / 2 - x point)
                        + (goalY - y point) * (goalY - y point))
                * sqrt ((GOAL_POST_WIDTH / 2 - x point) * (GOAL_POST_WIDTH / 2 - x point)
                        + (goalY - y point) * (goalY - y point))))
   \<and> (cosAngle \<noteq> NaN \<longrightarrow>
        (\<exists>v a. js_max (Fin (- 1)) (js_min (Fin 1) cosAngle) = Fin v \<and> - 1 \<le> v \<and> v \<le> 1
           \<and> angleDegrees cosAngle = Fin a \<and> a = arccos v * (180 / pi)
           \<and> 0 \<le> a \<and> a \<le> 180))
   \<and> angleDegrees (Fin c) = Fin (arccos (max (- 1) (min 1 c)) * (180 / pi))
   \<and> angleDegrees NaN = NaN
   \<and> (calculateAngleWidth point goalY = NaN
        \<or> (\<exists>a. calculateAngleWidth point goalY = Fin a \<and> 0 \<le> a \<and> a \<le> 180))"
proof -
  let ?q = "js_div ((- GOAL_POST_WIDTH / 2 - x point) * (GOAL_POST_WIDTH / 2 - x point)
                  + (goalY - y point) * (goalY - y point))
               (sqrt ((- GOAL_POST_WIDTH / 2 - x point) * (- GOAL_POST_WIDTH / 2 - x point)
                        + (goalY - y point) * (goalY - y point))
                * sqrt ((GOAL_POST_WIDTH / 2 - x point) * (GOAL_POST_WIDTH / 2 - x point)
                        + (goalY - y point) * (goalY - y point)))"
  have quot: "calculateAngleWidth point goalY = angleDegrees ?q"
    by (simp add: calculateAngleWidth_def Let_def)
  have clamp: "cosAngle \<noteq> NaN \<longrightarrow>
        (\<exists>v a. js_max (Fin (- 1)) (js_min (Fin 1) cosAngle) = Fin v \<and> - 1 \<le> v \<and> v \<le> 1
           \<and> angleDegrees cosAngle = Fin a \<and> a = arccos v * (180 / pi)
           \<and> 0 \<le> a \<and> a \<le> 180)"
    using angleDegrees_range [of cosAngle] by blast
  have nan: "angleDegrees NaN = NaN"
    by (simp add: angleDegrees_def)
  have range: "calculateAngleWidth point goalY = NaN
        \<or> (\<exists>a. calculateAngleWidth point goalY = Fin a \<and> 0 \<le> a \<and> a \<le> 180)"
  proof (cases "?q = NaN")
    case True
    then show ?thesis by (simp add: quot nan)
  next
    case False
    then show ?thesis
      using angleDegrees_range [of ?q] unfolding quot by blast
  qed
  show ?thesis
    using quot clamp angleDegrees_Fin [of c] nan range by blast
qed

text \<open>
  The theorem at the quotient 2, which the clamp brings to 1, with the angle 0; and at
  the point (0, 2.8) in front of the goal line y = 0, where the two vectors are
  perpendicular and the angle is 90 degrees.
\<close>

theorem calculateAngleWidth_clamped_range_witness:
  "Fin 2 \<noteq> NaN
   \<and> js_max (Fin (- 1)) (js_min (Fin 1) (Fin 2)) = Fin 1
   \<and> angleDegrees (Fin 2) = Fin 0
   \<and> calculateAngleWidth \<lparr>x = 0, y = 28 / 10\<rparr> 0 = Fin 90"
proof -
  have "calculateAngleWidth \<lparr>x = 0, y = 28 / 10\<rparr> 0 =
     angleDegrees
       (js_div ((- GOAL_POST_WIDTH / 2 - x \<lparr>x = 0, y = 28 / 10\<rparr>)
                  * (GOAL_POST_WIDTH / 2 - x \<lparr>x = 0, y = 28 / 10\<rparr>)
                  + (0 - y \<lparr>x = 0, y = 28 / 10\<rparr>) * (0 - y \<lparr>x = 0, y = 28 / 10\<rparr>))
               (sqrt ((- GOAL_POST_WIDTH / 2 - x \<lparr>x = 0, y = 28 / 10\<rparr>)
                        * (- GOAL_POST_WIDTH / 2 - x \<lparr>x = 0, y = 28 / 10\<rparr>)
                        + (0 - y \<lparr>x = 0, y = 28 / 10\<rparr>) * (0 - y \<lparr>x = 0, y = 28 / 10\<rparr>))
                * sqrt ((GOAL_POST_WIDTH / 2 - x \<lparr>x = 0, y = 28 / 10\<rparr>)
                        * (GOAL_POST_WIDTH / 2 - x \<lparr>x = 0, y = 28 / 10\<rparr>)
                        + (0 - y \<lparr>x = 0, y = 28 / 10\<rparr>) * (0 - y \<lparr>x = 0, y = 28 / 10\<rparr>))))"
    and "Fin 2 \<noteq> NaN \<longrightarrow>
        (\<exists>v a. js_max (Fin (- 1)) (js_min (Fin 1) (Fin 2)) = Fin v \<and> - 1 \<le> v \<and> v \<le> 1
           \<and> angleDegrees (Fin 2) = Fin a \<and> a = arccos v * (180 / pi)
           \<and> 0 \<le> a \<and> a \<le> 180)"
    using calculateAngleWidth_clamped_range [of "\<lparr>x = 0, y = 28 / 10\<rparr>" 0 "Fin 2" 2]
    by blast+
  then show ?thesis
    by (simp add: angleDegrees_def js_div_def GOAL_POST_WIDTH_def)
qed

text \<open>
  On the left post of the goal line y = PITCH_LENGTH the result is NaN, which is no angle
  in [0, 180].
\<close>

theorem calculateAngleWidth_left_post_NaN:
  "calculateAngleWidth \<lparr>x = - (28 / 10), y = 100\<rparr> 100 = NaN"
  by (simp add: calculateAngleWidth_def angleDegrees_def js_div_def GOAL_POST_WIDTH_def Let_def)

subsection \<open>On a post\<close>

text \<open>
  C2, as the code has it. The computation has no guard for a point on a post. There the
  vector to that post is zero, the dot product and the product of the magnitudes are both
  zero, the quotient 0 / 0 is NaN, the clamp and the arccosine pass it on, and the
  returned angle is NaN, on either post of every goal line.
\<close>

theorem calculateAngleWidth_on_post:
  "calculateAngleWidth \<lparr>x = - GOAL_POST_WIDTH / 2, y = goalY\<rparr> goalY = NaN
   \<and> calculateAngleWidth \<lparr>x = GOAL_POST_WIDTH / 2, y = goalY\<rparr> goalY = NaN"
  by (simp add: calculateAngleWidth_def angleDegrees_def js_div_def Let_def)

text \<open>On the right post of the goal line y = 0 the returned angle is NaN.\<close>

theorem calculateAngleWidth_right_post_NaN:
  "calculateAngleWidth \<lparr>x = 28 / 10, y = 0\<rparr> 0 = NaN"
  by (simp add: calculateAngleWidth_def angleDegrees_def js_div_def GOAL_POST_WIDTH_def Let_def)

subsection \<open>Mirror symmetry\<close>

lemma calculateAngleWidth_mirror:
  "calculateAngleWidth \<lparr>x = - px, y = py\<rparr> goalY = calculateAngleWidth \<lparr>x = px, y = py\<rparr> goalY"
  by (simp add: calculateAngleWidth_def angleDegrees_def Let_def mult.commute algebra_simps)

text \<open>
  C8. For every goal line and every point that is not on one of its posts, the point and
  its mirror image about the centerline (pitch-x negated) get the same angle width, a
  finite number.
\<close>

theorem calculateAngleWidth_mirror_symmetry:
  assumes "\<not> (py = goalY \<and> (px = - GOAL_POST_WIDTH / 2 \<or> px = GOAL_POST_WIDTH / 2))"
  shows "\<exists>a. calculateAngleWidth \<lparr>x = px, y = py\<rparr> goalY = Fin a
           \<and> calculateAngleWidth \<lparr>x = - px, y = py\<rparr> goalY = Fin a"
proof -
  have "\<not> (y \<lparr>x = px, y = py\<rparr> = goalY
            \<and> (x \<lparr>x = px, y = py\<rparr> = - GOAL_POST_WIDTH / 2
                \<or> x \<lparr>x = px, y = py\<rparr> = GOAL_POST_WIDTH / 2))"
    using assms by simp
  then obtain a where "calculateAngleWidth \<lparr>x = px, y = py\<rparr> goalY = Fin a"
    using calculateAngleWidth_Fin by blast
  then show ?thesis
    by (simp add: calculateAngleWidth_mirror)
qed

text \<open>The theorem at the points (10, 20) and (-10, 20), seen from the goal line y = 0.\<close>

theorem calculateAngleWidth_mirror_symmetry_witness:
  "\<not> ((20::real) = 0 \<and> ((10::real) = - GOAL_POST_WIDTH / 2 \<or> (10::real) = GOAL_POST_WIDTH / 2))
   \<and> (\<exists>a. calculateAngleWidth \<lparr>x = 10, y = 20\<rparr> 0 = Fin a
           \<and> calculateAngleWidth \<lparr>x = - 10, y = 20\<rparr> 0 = Fin a)"
proof -
  have h: "\<not> ((20::real) = 0
               \<and> ((10::real) = - GOAL_POST_WIDTH / 2 \<or> (10::real) = GOAL_POST_WIDTH / 2))"
    by simp
  show ?thesis
    using h calculateAngleWidth_mirror_symmetry [OF h] by simp
qed

section \<open>The bounding rectangle is unavailable\<close>

text \<open>
  C9. When the SVG element cannot report its bounding rectangle, the conversion from
  screen to pitch coordinates returns the point (0, 0) for every screen coordinate.
\<close>

theorem svgToPitch_no_rect: "svgToPitch None svgX svgY = \<lparr>x = 0, y = 0\<rparr>"
  by (simp add: svgToPitch_def)

text \<open>
  C10. When the bounding rectangle is unavailable at click time, the click handler
  returns early: the stored result, or its absence, is the one from before the click,
  whatever the event.
\<close>

theorem handlePitchClick_no_rect: "handlePitchClick None event calculation = calculation"
  by (simp add: handlePitchClick_def)

end
